theory Spec2Isabelle
  imports Complex_Main
begin

section \<open>Table detection: regions, rotation and text reassembly\<close>

text \<open>
  A shallow embedding of \<^verbatim>\<open>gmft/table_detection.py\<close>. Coordinates, scores and
  angles are Python numbers; they are modelled as exact reals, so the arithmetic below
  is the arithmetic of the source without floating-point rounding. Raster images and the
  detection network are collaborators outside this module; the image cache fields of a
  table are therefore left out, every other field is kept.
\<close>

subsection \<open>Words and line reconstruction\<close>

text \<open>A word of a page: \<^verbatim>\<open>(x0, y0, x1, y1, "string")\<close>.\<close>

type_synonym word = "real \<times> real \<times> real \<times> real \<times> string"

text \<open>The body of the \<^verbatim>\<open>for word in words\<close> loop of \<^verbatim>\<open>position_words\<close>,
  with the loop variables \<^verbatim>\<open>prev_bottom\<close> and \<^verbatim>\<open>lines\<close> as arguments.\<close>

fun position_words_loop :: "word list \<Rightarrow> real \<Rightarrow> real \<Rightarrow> string \<Rightarrow> string" where
  "position_words_loop [] y_gap prev_bottom lines = lines"
| "position_words_loop ((x0, y0, x1, y1, text) # words) y_gap prev_bottom lines =
     position_words_loop words y_gap y1
       (if \<bar>y1 - prev_bottom\<bar> \<ge> y_gap then lines @ CHR 0x0A # text
        else lines @ CHR '' '' # text)"

definition position_words :: "word list \<Rightarrow> real \<Rightarrow> string" where
  "position_words words y_gap =
     (case words of
        [] \<Rightarrow> ''''
      | (prev_left, prev_top, prev_right, prev_bottom, lines) # rest \<Rightarrow>
          position_words_loop rest y_gap prev_bottom lines)"

text \<open>The default value of the parameter \<^verbatim>\<open>y_gap\<close>.\<close>

definition default_y_gap :: real where
  "default_y_gap = 3"

text \<open>
  Line reconstruction as the specification words it: the first word's text, then for
  every later word a separator chosen from the bottoms of that word and of the word just
  before it, followed by the word's text.
\<close>

definition bottom :: "word \<Rightarrow> real" where
  "bottom w = (case w of (x0, y0, x1, y1, text) \<Rightarrow> y1)"

definition text_of :: "word \<Rightarrow> string" where
  "text_of w = (case w of (x0, y0, x1, y1, text) \<Rightarrow> text)"

definition separator :: "real \<Rightarrow> word \<Rightarrow> word \<Rightarrow> string" where
  "separator y_gap prev cur =
     (if \<bar>bottom cur - bottom prev\<bar> \<ge> y_gap then [CHR 0x0A] else '' '')"

definition reconstructed_lines :: "word list \<Rightarrow> real \<Rightarrow> string" where
  "reconstructed_lines words y_gap =
     (case words of
        [] \<Rightarrow> ''''
      | first # rest \<Rightarrow>
          text_of first @
          concat (map (\<lambda>(prev, cur). separator y_gap prev cur @ text_of cur)
                      (zip (first # rest) rest)))"


subsection \<open>Rectangles and pages\<close>

text \<open>
  Modelled from the spec: the class \<^verbatim>\<open>Rect\<close> of \<^verbatim>\<open>gmft.common\<close> is not part of
  the sources at hand. It is the axis-aligned rectangle value type of the specification:
  four real attributes, the tuple \<^verbatim>\<open>bbox\<close>, the derived \<^verbatim>\<open>width\<close> and
  \<^verbatim>\<open>height\<close>, and a boundary-inclusive intersection test.
\<close>

record Rect =
  xmin :: real
  ymin :: real
  xmax :: real
  ymax :: real

type_synonym bbox_tuple = "real \<times> real \<times> real \<times> real"

definition Rect_init :: "bbox_tuple \<Rightarrow> Rect" where
  "Rect_init b = (case b of (x0, y0, x1, y1) \<Rightarrow> \<lparr>xmin = x0, ymin = y0, xmax = x1, ymax = y1\<rparr>)"

definition bbox :: "Rect \<Rightarrow> bbox_tuple" where
  "bbox r = (xmin r, ymin r, xmax r, ymax r)"

definition width :: "Rect \<Rightarrow> real" where
  "width r = xmax r - xmin r"

definition height :: "Rect \<Rightarrow> real" where
  "height r = ymax r - ymin r"

definition is_intersecting :: "Rect \<Rightarrow> Rect \<Rightarrow> bool" where
  "is_intersecting a b =
     (\<not> (xmin a > xmax b \<or> xmax a < xmin b \<or> ymin a > ymax b \<or> ymax a < ymin b))"

text \<open>
  The page collaborator \<^verbatim>\<open>BasePage\<close>, reduced to what this module asks of it:
  \<^verbatim>\<open>get_filename()\<close>, \<^verbatim>\<open>page_number\<close> and the finite word sequence of
  \<^verbatim>\<open>get_positions_and_text()\<close>.
\<close>

record BasePage =
  get_filename :: string
  page_number :: int
  get_positions_and_text :: "word list"

subsection \<open>Errors and Python values\<close>

datatype error =
    ValueError string
  | AssertionError
  | KeyError string
  | IndexError
  | TypeError

text \<open>Sequencing of steps that may raise: the first error ends the computation.\<close>

definition and_then :: "error + 'a \<Rightarrow> ('a \<Rightarrow> error + 'b) \<Rightarrow> error + 'b" where
  "and_then r f = (case r of Inl e \<Rightarrow> Inl e | Inr x \<Rightarrow> f x)"

text \<open>A float that may be \<^verbatim>\<open>np.nan\<close>.\<close>

datatype pyfloat = Num real | NaN

subsection \<open>CroppedTable and RotatedCroppedTable\<close>

text \<open>
  The fields \<^verbatim>\<open>_word_height\<close> and \<^verbatim>\<open>_captions\<close> are the two caches;
  \<open>None\<close> is Python's \<^verbatim>\<open>None\<close>. The subclass adds \<^verbatim>\<open>angle\<close>.
\<close>

record CroppedTable =
  page :: BasePage
  rect :: Rect
  confidence_score :: real
  label :: int
  cached_word_height :: "pyfloat option"
  cached_captions :: "string list option"

record RotatedCroppedTable = CroppedTable +
  angle :: real

text \<open>An object of either class; method calls dispatch on the constructor.\<close>

datatype table = Plain CroppedTable | Rotated RotatedCroppedTable

text \<open>The constructor argument \<^verbatim>\<open>bbox\<close> is a tuple or a \<^verbatim>\<open>Rect\<close>.\<close>

datatype bbox_arg = BBoxTuple bbox_tuple | BBoxRect Rect

definition CroppedTable_init :: "BasePage \<Rightarrow> bbox_arg \<Rightarrow> real \<Rightarrow> int \<Rightarrow> CroppedTable" where
  "CroppedTable_init pg b score lbl =
     \<lparr>page = pg,
      rect = (case b of BBoxRect r \<Rightarrow> r | BBoxTuple t \<Rightarrow> Rect_init t),
      confidence_score = score,
      label = lbl,
      cached_word_height = None,
      cached_captions = None\<rparr>"

definition RotatedCroppedTable_init ::
    "BasePage \<Rightarrow> bbox_arg \<Rightarrow> real \<Rightarrow> real \<Rightarrow> int \<Rightarrow> error + RotatedCroppedTable" where
  "RotatedCroppedTable_init pg b score ang lbl =
     (let super = CroppedTable_init pg b score lbl in
      if ang \<notin> set [0, 90, 180, 270]
      then Inl (ValueError ''Only 0, 90, 180, 270 are supported.'')
      else Inr \<lparr>page = page super,
                rect = rect super,
                confidence_score = confidence_score super,
                label = label super,
                cached_word_height = cached_word_height super,
                cached_captions = cached_captions super,
                angle = ang\<rparr>)"

subsection \<open>Text positions\<close>

text \<open>
  The generator \<^verbatim>\<open>CroppedTable.text_positions\<close>: the loop over the page's words, run
  on the remaining words; it reads only \<^verbatim>\<open>self.rect\<close>.
\<close>

fun text_positions_loop :: "Rect \<Rightarrow> bool \<Rightarrow> bool \<Rightarrow> word list \<Rightarrow> word list" where
  "text_positions_loop r remove_table_offset outside [] = []"
| "text_positions_loop r remove_table_offset outside ((w0, w1, w2, w3, w4) # ws) =
     (if is_intersecting (Rect_init (w0, w1, w2, w3)) r \<noteq> outside
      then (if remove_table_offset
            then (w0 - xmin r, w1 - ymin r, w2 - xmin r, w3 - ymin r, w4)
            else (w0, w1, w2, w3, w4))
           # text_positions_loop r remove_table_offset outside ws
      else text_positions_loop r remove_table_offset outside ws)"

definition CroppedTable_text_positions ::
    "'a CroppedTable_scheme \<Rightarrow> bool \<Rightarrow> bool \<Rightarrow> word list" where
  "CroppedTable_text_positions self remove_table_offset outside =
     text_positions_loop (rect self) remove_table_offset outside
       (get_positions_and_text (page self))"

text \<open>
  The three loops of \<^verbatim>\<open>RotatedCroppedTable.text_positions\<close> over the words of
  \<^verbatim>\<open>super().text_positions(remove_table_offset=True, outside=outside)\<close>.
\<close>

fun remap_90_loop :: "Rect \<Rightarrow> word list \<Rightarrow> word list" where
  "remap_90_loop r [] = []"
| "remap_90_loop r ((x0, y0, x1, y1, text) # ws) =
     (height r - y1, x0, height r - y0, x1, text) # remap_90_loop r ws"

fun remap_180_loop :: "Rect \<Rightarrow> word list \<Rightarrow> word list" where
  "remap_180_loop r [] = []"
| "remap_180_loop r ((x0, y0, x1, y1, text) # ws) =
     (width r - x1, height r - y1, width r - x0, height r - y0, text) # remap_180_loop r ws"

fun remap_270_loop :: "Rect \<Rightarrow> word list \<Rightarrow> word list" where
  "remap_270_loop r [] = []"
| "remap_270_loop r ((x0, y0, x1, y1, text) # ws) =
     (y0, width r - x1, y1, width r - x0, text) # remap_270_loop r ws"

definition RotatedCroppedTable_text_positions ::
    "RotatedCroppedTable \<Rightarrow> bool \<Rightarrow> bool \<Rightarrow> word list" where
  "RotatedCroppedTable_text_positions self remove_table_offset outside =
     (if angle self = 0 \<or> remove_table_offset = False
      then CroppedTable_text_positions self remove_table_offset outside
      else if angle self = 90
      then remap_90_loop (rect self) (CroppedTable_text_positions self True outside)
      else if angle self = 180
      then remap_180_loop (rect self) (CroppedTable_text_positions self True outside)
      else if angle self = 270
      then remap_270_loop (rect self) (CroppedTable_text_positions self True outside)
      else [])"

definition text_positions :: "table \<Rightarrow> bool \<Rightarrow> bool \<Rightarrow> word list" where
  "text_positions self remove_table_offset outside =
     (case self of
        Plain c \<Rightarrow> CroppedTable_text_positions c remove_table_offset outside
      | Rotated r \<Rightarrow> RotatedCroppedTable_text_positions r remove_table_offset outside)"

text \<open>The method \<^verbatim>\<open>text\<close>.\<close>

definition table_text :: "table \<Rightarrow> string" where
  "table_text self = position_words (text_positions self False False) default_y_gap"

subsection \<open>Predicted word height\<close>

text \<open>
  \<^verbatim>\<open>np.median\<close> of a list: the middle element of the sorted list, the mean of the two
  middle elements when the length is even, and \<^verbatim>\<open>nan\<close> for the empty list.
\<close>

definition np_median :: "real list \<Rightarrow> pyfloat" where
  "np_median xs =
     (let s = sort xs; n = length s in
      if n = 0 then NaN
      else if odd n then Num (s ! (n div 2))
      else Num ((s ! (n div 2 - 1) + s ! (n div 2)) / 2))"

text \<open>Multiplication of a float by a constant, and the comparisons of the two assertions.\<close>

fun times_float :: "real \<Rightarrow> pyfloat \<Rightarrow> pyfloat" where
  "times_float c (Num x) = Num (c * x)"
| "times_float c NaN = NaN"

fun greater_zero :: "pyfloat \<Rightarrow> bool" where
  "greater_zero (Num x) = (x > 0)"
| "greater_zero NaN = False"

fun not_equal_zero :: "pyfloat \<Rightarrow> bool" where
  "not_equal_zero (Num x) = (x \<noteq> 0)"
| "not_equal_zero NaN = True"

text \<open>Reading and writing the cache fields of an object of either class.\<close>

definition word_height_of :: "table \<Rightarrow> pyfloat option" where
  "word_height_of self =
     (case self of Plain c \<Rightarrow> cached_word_height c | Rotated r \<Rightarrow> cached_word_height r)"

definition set_word_height :: "table \<Rightarrow> pyfloat option \<Rightarrow> table" where
  "set_word_height self v =
     (case self of
        Plain c \<Rightarrow> Plain (c\<lparr>cached_word_height := v\<rparr>)
      | Rotated r \<Rightarrow> Rotated (r\<lparr>cached_word_height := v\<rparr>))"

definition captions_of :: "table \<Rightarrow> string list option" where
  "captions_of self =
     (case self of Plain c \<Rightarrow> cached_captions c | Rotated r \<Rightarrow> cached_captions r)"

definition set_captions :: "table \<Rightarrow> string list option \<Rightarrow> table" where
  "set_captions self v =
     (case self of
        Plain c \<Rightarrow> Plain (c\<lparr>cached_captions := v\<rparr>)
      | Rotated r \<Rightarrow> Rotated (r\<lparr>cached_captions := v\<rparr>))"

text \<open>The loop of \<^verbatim>\<open>predicted_word_height\<close> that fills \<^verbatim>\<open>word_heights\<close>.\<close>

fun word_heights_loop :: "real \<Rightarrow> word list \<Rightarrow> real list \<Rightarrow> real list" where
  "word_heights_loop smallest [] word_heights = word_heights"
| "word_heights_loop smallest ((x0, y0, x1, y1, text) # ws) word_heights =
     word_heights_loop smallest ws
       (if y1 - y0 > smallest then word_heights @ [y1 - y0] else word_heights)"

definition default_smallest_supported_text_height :: real where
  "default_smallest_supported_text_height = 0.1"

text \<open>
  \<^verbatim>\<open>predicted_word_height\<close> returns its result, or the error of a failed assertion,
  together with the object after the call: the cache is written before the second
  assertion is checked.
\<close>

definition predicted_word_height :: "table \<Rightarrow> real \<Rightarrow> (error + pyfloat) \<times> table" where
  "predicted_word_height self smallest_supported_text_height =
     (case word_height_of self of
        Some wh \<Rightarrow>
          (if not_equal_zero wh then (Inr wh, self) else (Inl AssertionError, self))
      | None \<Rightarrow>
          (let word_heights =
                 word_heights_loop smallest_supported_text_height
                   (text_positions self True False) []
           in if word_heights \<noteq> []
              then (let wh = times_float 0.95 (np_median word_heights);
                        self' = set_word_height self (Some wh)
                    in if greater_zero wh then (Inr wh, self') else (Inl AssertionError, self'))
              else (Inr NaN, set_word_height self (Some NaN))))"

subsection \<open>Captions\<close>

text \<open>
  \<^verbatim>\<open>_find_captions\<close> belongs to the caption module and is a parameter here, as are the
  keyword arguments passed through to it. The cache is truthy when it holds a list that
  is not empty.
\<close>

definition truthy :: "string list option \<Rightarrow> bool" where
  "truthy c = (case c of None \<Rightarrow> False | Some l \<Rightarrow> l \<noteq> [])"

definition default_line_spacing :: real where
  "default_line_spacing = 2.5"

definition captions ::
    "(table \<Rightarrow> real option \<Rightarrow> real \<Rightarrow> 'kw \<Rightarrow> string list) \<Rightarrow>
     table \<Rightarrow> real option \<Rightarrow> real \<Rightarrow> 'kw \<Rightarrow> string list \<times> table" where
  "captions find_captions self margin line_spacing kwargs =
     (if truthy (captions_of self) \<and> (margin = None \<or> line_spacing = 2.5)
      then ((case captions_of self of Some c \<Rightarrow> c | None \<Rightarrow> []), self)
      else (let c = find_captions self margin line_spacing kwargs
            in (c, set_captions self (Some c))))"

subsection \<open>Serialisation\<close>

text \<open>
  The values of a serialised record. The source is untyped; in this typed model a key
  holding a value of another type than \<^verbatim>\<open>to_dict\<close> writes there is answered with
  \<open>TypeError\<close>, a missing key with \<open>KeyError\<close> as in the source.
\<close>

datatype pyobj =
    PyStr string
  | PyInt int
  | PyFloat real
  | PyBBox bbox_tuple
  | PyStrList "string list"

type_synonym pydict = "string \<rightharpoonup> pyobj"

definition CroppedTable_to_dict :: "'a CroppedTable_scheme \<Rightarrow> pydict" where
  "CroppedTable_to_dict self =
     [''filename'' \<mapsto> PyStr (get_filename (page self)),
      ''page_no'' \<mapsto> PyInt (page_number (page self)),
      ''bbox'' \<mapsto> PyBBox (bbox (rect self)),
      ''confidence_score'' \<mapsto> PyFloat (confidence_score self),
      ''label'' \<mapsto> PyInt (label self)]"

definition RotatedCroppedTable_to_dict :: "RotatedCroppedTable \<Rightarrow> pydict" where
  "RotatedCroppedTable_to_dict self = (CroppedTable_to_dict self)(''angle'' \<mapsto> PyFloat (angle self))"

definition to_dict :: "table \<Rightarrow> pydict" where
  "to_dict self =
     (case self of
        Plain c \<Rightarrow> CroppedTable_to_dict c
      | Rotated r \<Rightarrow> RotatedCroppedTable_to_dict r)"

definition item_bbox :: "pydict \<Rightarrow> string \<Rightarrow> error + bbox_tuple" where
  "item_bbox d k =
     (case d k of None \<Rightarrow> Inl (KeyError k) | Some (PyBBox b) \<Rightarrow> Inr b | Some _ \<Rightarrow> Inl TypeError)"

definition item_float :: "pydict \<Rightarrow> string \<Rightarrow> error + real" where
  "item_float d k =
     (case d k of None \<Rightarrow> Inl (KeyError k) | Some (PyFloat x) \<Rightarrow> Inr x | Some _ \<Rightarrow> Inl TypeError)"

definition item_int :: "pydict \<Rightarrow> string \<Rightarrow> error + int" where
  "item_int d k =
     (case d k of None \<Rightarrow> Inl (KeyError k) | Some (PyInt x) \<Rightarrow> Inr x | Some _ \<Rightarrow> Inl TypeError)"

text \<open>\<^verbatim>\<open>d.get('captions', [])\<close>\<close>

definition get_captions :: "pydict \<Rightarrow> error + string list" where
  "get_captions d =
     (case d ''captions'' of
        None \<Rightarrow> Inr [] | Some (PyStrList l) \<Rightarrow> Inr l | Some _ \<Rightarrow> Inl TypeError)"

text \<open>
  The two static methods \<^verbatim>\<open>from_dict\<close> call each other; each call moves to the
  class that the presence of the key \<^verbatim>\<open>angle\<close> selects, so the recursion ends
  after one step.
\<close>

function CroppedTable_from_dict :: "pydict \<Rightarrow> BasePage \<Rightarrow> error + table"
  and RotatedCroppedTable_from_dict :: "pydict \<Rightarrow> BasePage \<Rightarrow> error + table" where
  "CroppedTable_from_dict d pg =
     (if d ''angle'' \<noteq> None then RotatedCroppedTable_from_dict d pg
      else and_then (item_bbox d ''bbox'') (\<lambda>b.
           and_then (item_float d ''confidence_score'') (\<lambda>score.
           and_then (item_int d ''label'') (\<lambda>lbl.
           and_then (get_captions d) (\<lambda>c.
             Inr (Plain ((CroppedTable_init pg (BBoxTuple b) score lbl)
                           \<lparr>cached_captions := Some c\<rparr>)))))))"
| "RotatedCroppedTable_from_dict d pg =
     (if d ''angle'' = None then CroppedTable_from_dict d pg
      else and_then (item_bbox d ''bbox'') (\<lambda>b.
           and_then (item_float d ''confidence_score'') (\<lambda>score.
           and_then (item_float d ''angle'') (\<lambda>ang.
           and_then (item_int d ''label'') (\<lambda>lbl.
           and_then (RotatedCroppedTable_init pg (BBoxTuple b) score ang lbl) (\<lambda>t.
           and_then (get_captions d) (\<lambda>c.
             Inr (Rotated (t\<lparr>cached_captions := Some c\<rparr>)))))))))"
  by pat_completeness auto
termination
  by (relation "measure (\<lambda>x. case x of
                    Inl (d, pg) \<Rightarrow> if d ''angle'' \<noteq> None then 1 else 0
                  | Inr (d, pg) \<Rightarrow> if d ''angle'' = None then 1 else 0)") auto

declare CroppedTable_from_dict.simps [simp del]
declare RotatedCroppedTable_from_dict.simps [simp del]

subsection \<open>Detector orchestration\<close>

text \<open>
  The post-processed output of the detection model, \<^verbatim>\<open>results\<close>: three parallel
  sequences. \<^verbatim>\<open>TableDetector.extract\<close> is modelled from the point where it has them.
\<close>

record detection_results =
  boxes :: "bbox_tuple list"
  scores :: "real list"
  labels :: "int list"

fun extract_loop :: "BasePage \<Rightarrow> detection_results \<Rightarrow> nat list \<Rightarrow> table list \<Rightarrow> error + table list" where
  "extract_loop pg results [] tables = Inr tables"
| "extract_loop pg results (i # rest) tables =
     (if i \<ge> length (boxes results) \<or> i \<ge> length (scores results) \<or> i \<ge> length (labels results)
      then Inl IndexError
      else (let b = boxes results ! i;
                score = scores results ! i;
                lbl = labels results ! i
            in if lbl = 1
               then (case RotatedCroppedTable_init pg (BBoxTuple b) score 90 lbl of
                       Inl e \<Rightarrow> Inl e
                     | Inr t \<Rightarrow> extract_loop pg results rest (tables @ [Rotated t]))
               else extract_loop pg results rest
                      (tables @ [Plain (CroppedTable_init pg (BBoxTuple b) score lbl)])))"

definition TableDetector_extract :: "BasePage \<Rightarrow> detection_results \<Rightarrow> error + table list" where
  "TableDetector_extract pg results =
     extract_loop pg results [0 ..< length (boxes results)] []"

subsection \<open>Auxiliary notions of the specification\<close>

text \<open>Translating a word by the top-left corner of a rectangle, back into page space.\<close>

definition shift_back :: "Rect \<Rightarrow> word \<Rightarrow> word" where
  "shift_back r w =
     (case w of (x0, y0, x1, y1, t) \<Rightarrow> (x0 + xmin r, y0 + ymin r, x1 + xmin r, y1 + ymin r, t))"

text \<open>
  The remapping that \<^verbatim>\<open>RotatedCroppedTable.text_positions\<close> applies to the
  offset-removed words, selected by the object's angle as in the method's chain of
  branches for a rotated table.
\<close>

definition remap_words :: "RotatedCroppedTable \<Rightarrow> word list \<Rightarrow> word list" where
  "remap_words self ws =
     (if angle self = 90 then remap_90_loop (rect self) ws
      else if angle self = 180 then remap_180_loop (rect self) ws
      else if angle self = 270 then remap_270_loop (rect self) ws
      else [])"

text \<open>
  The region that the detector builds from one detection, as the specification describes
  it: label 1 gives a rotated table of angle 90, any other label a plain table; the box,
  the score and the label are those of the detection and both caches are empty.
\<close>

definition detected_region :: "BasePage \<Rightarrow> bbox_tuple \<Rightarrow> real \<Rightarrow> int \<Rightarrow> table" where
  "detected_region pg b score lbl =
     (if lbl = 1
      then Rotated \<lparr>page = pg, rect = Rect_init b, confidence_score = score, label = lbl,
                    cached_word_height = None, cached_captions = None, angle = 90\<rparr>
      else Plain \<lparr>page = pg, rect = Rect_init b, confidence_score = score, label = lbl,
                  cached_word_height = None, cached_captions = None\<rparr>)"

text \<open>The heights of the offset-removed words of a table that exceed a threshold.\<close>

definition qualifying_heights :: "table \<Rightarrow> real \<Rightarrow> real list" where
  "qualifying_heights self t =
     filter (\<lambda>h. h > t)
       (map (\<lambda>(x0, y0, x1, y1, s). y1 - y0) (text_positions self True False))"

subsection \<open>Sample data\<close>

definition sample_page :: BasePage where
  "sample_page =
     \<lparr>get_filename = ''sample.pdf'',
      page_number = 0,
      get_positions_and_text =
        [(12, 22, 20, 30, ''a''), (30, 40, 50, 45, ''b''), (200, 200, 210, 210, ''c'')]\<rparr>"

definition sample_table :: CroppedTable where
  "sample_table = CroppedTable_init sample_page (BBoxTuple (10, 20, 110, 70)) 0.95 0"

definition sample_rotated :: "real \<Rightarrow> RotatedCroppedTable" where
  "sample_rotated ang =
     \<lparr>page = sample_page,
      rect = Rect_init (10, 20, 110, 70),
      confidence_score = 0.95,
      label = 1,
      cached_word_height = None,
      cached_captions = None,
      angle = ang\<rparr>"

text \<open>A region of the size of the sample region turned by a quarter: 50 wide, 100 high.\<close>

definition sample_turned :: "real \<Rightarrow> RotatedCroppedTable" where
  "sample_turned ang =
     \<lparr>page = sample_page,
      rect = Rect_init (0, 0, 50, 100),
      confidence_score = 0.95,
      label = 1,
      cached_word_height = None,
      cached_captions = None,
      angle = ang\<rparr>"

text \<open>A page whose words have the heights 1, 1, 2, 100 and 0.05, inside one table.\<close>

definition heights_page :: BasePage where
  "heights_page =
     \<lparr>get_filename = ''heights.pdf'',
      page_number = 3,
      get_positions_and_text =
        [(0, 0, 5, 1, ''p''), (6, 0, 9, 1, ''q''), (0, 5, 5, 105, ''r''),
         (0, 2, 5, 4, ''s''), (0, 6, 1, 6.05, ''.'')]\<rparr>"

definition heights_table :: CroppedTable where
  "heights_table = CroppedTable_init heights_page (BBoxTuple (0, 0, 200, 200)) 0.99 0"



text \<open>A table with a caption pair in its cache, and a caption finder with a fixed answer.\<close>

definition captioned_table :: CroppedTable where
  "captioned_table = sample_table\<lparr>cached_captions := Some [''Table 1'', '''']\<rparr>"

definition fixed_finder :: "table \<Rightarrow> real option \<Rightarrow> real \<Rightarrow> unit \<Rightarrow> string list" where
  "fixed_finder self margin line_spacing kwargs = [''found again'', '''']"

text \<open>Three detections: a table, a rotated table, and one with another label.\<close>

definition sample_results :: detection_results where
  "sample_results =
     \<lparr>boxes = [(10, 10, 110, 60), (20, 30, 80, 200), (0, 0, 5, 5)],
      scores = [0.95, 0.97, 0.91],
      labels = [0, 1, 7]\<rparr>"

section \<open>Properties\<close>

subsection \<open>Line reconstruction\<close>

lemma position_words_loop_pairs:
  "position_words_loop ws g (bottom p) acc =
     acc @ concat (map (\<lambda>(prev, cur). separator g prev cur @ text_of cur) (zip (p # ws) ws))"
proof (induction ws arbitrary: p acc)
  case Nil
  show ?case by simp
next
  case (Cons w ws)
  obtain x0 y0 x1 y1 t where w: "w = (x0, y0, x1, y1, t)"
    by (cases w) auto
  have b: "bottom w = y1" and tx: "text_of w = t"
    by (simp_all add: w bottom_def text_of_def)
  have "position_words_loop (w # ws) g (bottom p) acc =
          position_words_loop ws g (bottom w) (acc @ separator g p w @ t)"
    by (simp add: w separator_def bottom_def)
  also have "\<dots> = (acc @ separator g p w @ t) @
          concat (map (\<lambda>(prev, cur). separator g prev cur @ text_of cur) (zip (w # ws) ws))"
    by (rule Cons.IH)
  finally show ?case by (simp add: tx)
qed

text \<open>
  C4. For every ordered sequence of words and every \<^verbatim>\<open>y_gap\<close>, \<^verbatim>\<open>position_words\<close>
  returns the first word's text followed, for each later word, by a newline and its text
  when the bottoms of that word and of the word just before it differ by at least
  \<^verbatim>\<open>y_gap\<close> in absolute value, and by a space and its text otherwise; the bottom
  compared against is that of the preceding word, not a running maximum. The empty
  sequence gives the empty string, and the words (0,0,10,10,A), (12,0,20,10,B),
  (0,20,10,30,C) with the default gap 3 give the two lines "A B" and "C".
\<close>

theorem position_words_reconstructs_lines:
  "position_words ws y_gap = reconstructed_lines ws y_gap
   \<and> position_words [] y_gap = ''''
   \<and> default_y_gap = 3
   \<and> position_words [(0, 0, 10, 10, ''A''), (12, 0, 20, 10, ''B''), (0, 20, 10, 30, ''C'')]
        default_y_gap = ''A B'' @ [CHR 0x0A] @ ''C''"
proof -
  have eq: "position_words ws y_gap = reconstructed_lines ws y_gap"
  proof (cases ws)
    case Nil
    then show ?thesis by (simp add: position_words_def reconstructed_lines_def)
  next
    case (Cons w rest)
    obtain x0 y0 x1 y1 t where w: "w = (x0, y0, x1, y1, t)"
      by (cases w) auto
    have "position_words ws y_gap = position_words_loop rest y_gap (bottom w) t"
      by (simp add: Cons w position_words_def bottom_def)
    also have "\<dots> = t @ concat (map (\<lambda>(prev, cur). separator y_gap prev cur @ text_of cur)
                                     (zip (w # rest) rest))"
      by (rule position_words_loop_pairs)
    finally show ?thesis
      by (simp add: Cons w reconstructed_lines_def text_of_def)
  qed
  have ex: "position_words [(0, 0, 10, 10, ''A''), (12, 0, 20, 10, ''B''), (0, 20, 10, 30, ''C'')]
              default_y_gap = ''A B'' @ [CHR 0x0A] @ ''C''"
    by (simp add: position_words_def default_y_gap_def)
  show ?thesis using eq ex by (simp add: position_words_def default_y_gap_def)
qed

subsection \<open>Rotation\<close>

lemma remap_90_loop_map:
  "remap_90_loop r ws =
     map (\<lambda>(x0, y0, x1, y1, t). (height r - y1, x0, height r - y0, x1, t)) ws"
  by (induction r ws rule: remap_90_loop.induct) simp_all

lemma remap_180_loop_map:
  "remap_180_loop r ws =
     map (\<lambda>(x0, y0, x1, y1, t). (width r - x1, height r - y1, width r - x0, height r - y0, t)) ws"
  by (induction r ws rule: remap_180_loop.induct) simp_all

lemma remap_270_loop_map:
  "remap_270_loop r ws =
     map (\<lambda>(x0, y0, x1, y1, t). (y0, width r - x1, y1, width r - x0, t)) ws"
  by (induction r ws rule: remap_270_loop.induct) simp_all

lemma remap_270_after_90:
  "width r' = height r \<Longrightarrow> remap_270_loop r' (remap_90_loop r ws) = ws"
  by (induction r ws rule: remap_90_loop.induct) simp_all

lemma remap_180_after_180:
  "width r' = width r \<Longrightarrow> height r' = height r \<Longrightarrow>
   remap_180_loop r' (remap_180_loop r ws) = ws"
  by (induction r ws rule: remap_180_loop.induct) simp_all

lemma remap_90_after_270:
  "height r' = width r \<Longrightarrow> remap_90_loop r' (remap_270_loop r ws) = ws"
  by (induction r ws rule: remap_270_loop.induct) simp_all

lemma rotated_text_positions_remap_words:
  "angle self \<noteq> 0 \<Longrightarrow>
   RotatedCroppedTable_text_positions self True outside =
     remap_words self (CroppedTable_text_positions self True outside)"
  by (simp add: RotatedCroppedTable_text_positions_def remap_words_def)

text \<open>
  C1. Let a rotated table have angle \<open>\<theta>\<close> among 90, 180 and 270, and let a second one
  have the angle \<open>(360 - \<theta>) mod 360\<close> and the rectangle of the rotated frame: width and
  height exchanged for 90 and 270, kept for 180. Remapping any words by the first table's
  transform and then by the second's gives the words back unchanged; the transform of a
  table is the one its \<^verbatim>\<open>text_positions\<close> applies to the offset-removed words.
\<close>

theorem rotation_composition_law:
  assumes "\<theta> \<in> {90, 180, 270}"
    and "angle self = real_of_int \<theta>"
    and "angle back = real_of_int ((360 - \<theta>) mod 360)"
    and "if \<theta> = 180
         then width (rect back) = width (rect self) \<and> height (rect back) = height (rect self)
         else width (rect back) = height (rect self) \<and> height (rect back) = width (rect self)"
  shows "remap_words back (remap_words self ws) = ws
         \<and> RotatedCroppedTable_text_positions self True outside =
             remap_words self (CroppedTable_text_positions self True outside)
         \<and> RotatedCroppedTable_text_positions back True outside =
             remap_words back (CroppedTable_text_positions back True outside)"
proof -
  from assms(1) consider "\<theta> = 90" | "\<theta> = 180" | "\<theta> = 270"
    by auto
  then have comp: "remap_words back (remap_words self ws) = ws"
  proof cases
    case 1
    then have "angle self = 90" "angle back = 270"
      using assms(2,3) by simp_all
    moreover have "width (rect back) = height (rect self)"
      using assms(4) 1 by simp
    ultimately show ?thesis
      by (simp add: remap_words_def remap_270_after_90)
  next
    case 2
    then have "angle self = 180" "angle back = 180"
      using assms(2,3) by simp_all
    moreover have "width (rect back) = width (rect self)" "height (rect back) = height (rect self)"
      using assms(4) 2 by simp_all
    ultimately show ?thesis
      by (simp add: remap_words_def remap_180_after_180)
  next
    case 3
    then have "angle self = 270" "angle back = 90"
      using assms(2,3) by simp_all
    moreover have "height (rect back) = width (rect self)"
      using assms(4) 3 by simp
    ultimately show ?thesis
      by (simp add: remap_words_def remap_90_after_270)
  qed
  have "angle self \<noteq> 0" "angle back \<noteq> 0"
    using assms(1,2,3) by auto
  then show ?thesis
    using comp by (simp add: rotated_text_positions_remap_words)
qed

theorem rotation_composition_law_witness:
  "remap_words (sample_turned 270)
     (remap_words (sample_rotated 90) [(2, 2, 10, 10, ''a''), (20, 20, 40, 25, ''b'')])
     = [(2, 2, 10, 10, ''a''), (20, 20, 40, 25, ''b'')]
   \<and> remap_words (sample_rotated 90) [(2, 2, 10, 10, ''a''), (20, 20, 40, 25, ''b'')]
     = [(40, 2, 48, 10, ''a''), (25, 20, 30, 40, ''b'')]
   \<and> RotatedCroppedTable_text_positions (sample_rotated 90) True False
     = [(40, 2, 48, 10, ''a''), (25, 20, 30, 40, ''b'')]"
proof -
  have h1: "(90::int) \<in> {90, 180, 270}" by simp
  have h2: "angle (sample_rotated 90) = real_of_int 90"
    by (simp add: sample_rotated_def)
  have h3: "angle (sample_turned 270) = real_of_int ((360 - 90) mod 360)"
    by (simp add: sample_turned_def)
  have h4: "if (90::int) = 180
      then width (rect (sample_turned 270)) = width (rect (sample_rotated 90))
         \<and> height (rect (sample_turned 270)) = height (rect (sample_rotated 90))
      else width (rect (sample_turned 270)) = height (rect (sample_rotated 90))
         \<and> height (rect (sample_turned 270)) = width (rect (sample_rotated 90))"
    by (simp add: sample_turned_def sample_rotated_def width_def height_def Rect_init_def)
  note law = rotation_composition_law [OF h1 h2 h3 h4,
      of "[(2, 2, 10, 10, ''a''), (20, 20, 40, 25, ''b'')]" False]
  have base: "CroppedTable_text_positions (sample_rotated 90) True False
                = [(2, 2, 10, 10, ''a''), (20, 20, 40, 25, ''b'')]"
    by (simp add: CroppedTable_text_positions_def sample_rotated_def sample_page_def
        is_intersecting_def Rect_init_def)
  have img: "remap_words (sample_rotated 90) [(2, 2, 10, 10, ''a''), (20, 20, 40, 25, ''b'')]
               = [(40, 2, 48, 10, ''a''), (25, 20, 30, 40, ''b'')]"
    by (simp add: remap_words_def sample_rotated_def height_def Rect_init_def)
  show ?thesis
    using law base img by simp
qed

text \<open>
  C2. For a rotated table with a non-zero angle and \<^verbatim>\<open>remove_table_offset=True\<close>,
  \<^verbatim>\<open>text_positions\<close> yields the offset-removed words of the base class, in order,
  each remapped by the transform of its angle: for 90, (H - y1, x0, H - y0, x1); for 180,
  (W - x1, H - y1, W - x0, H - y0); for 270, (y0, W - x1, y1, W - x0), with W and H the
  width and height of the table's rectangle. With angle 0, or without offset removal, the
  result is that of the base class.
\<close>

theorem rotated_text_positions_remapped:
  "(angle self = 90 \<longrightarrow>
      text_positions (Rotated self) True outside =
        map (\<lambda>(x0, y0, x1, y1, t).
               (height (rect self) - y1, x0, height (rect self) - y0, x1, t))
            (CroppedTable_text_positions self True outside))
   \<and> (angle self = 180 \<longrightarrow>
      text_positions (Rotated self) True outside =
        map (\<lambda>(x0, y0, x1, y1, t).
               (width (rect self) - x1, height (rect self) - y1,
                width (rect self) - x0, height (rect self) - y0, t))
            (CroppedTable_text_positions self True outside))
   \<and> (angle self = 270 \<longrightarrow>
      text_positions (Rotated self) True outside =
        map (\<lambda>(x0, y0, x1, y1, t).
               (y0, width (rect self) - x1, y1, width (rect self) - x0, t))
            (CroppedTable_text_positions self True outside))
   \<and> (angle self = 0 \<or> \<not> remove_table_offset \<longrightarrow>
      text_positions (Rotated self) remove_table_offset outside =
        CroppedTable_text_positions self remove_table_offset outside)"
  by (simp add: text_positions_def RotatedCroppedTable_text_positions_def
      remap_90_loop_map remap_180_loop_map remap_270_loop_map)

theorem rotated_text_positions_remapped_witness:
  "text_positions (Rotated (sample_rotated 90)) True False
     = [(40, 2, 48, 10, ''a''), (25, 20, 30, 40, ''b'')]
   \<and> text_positions (Rotated (sample_rotated 180)) True False
     = [(90, 40, 98, 48, ''a''), (60, 25, 80, 30, ''b'')]
   \<and> text_positions (Rotated (sample_rotated 270)) True False
     = [(2, 90, 10, 98, ''a''), (20, 60, 25, 80, ''b'')]
   \<and> text_positions (Rotated (sample_rotated 0)) True False
     = [(2, 2, 10, 10, ''a''), (20, 20, 40, 25, ''b'')]
   \<and> text_positions (Rotated (sample_rotated 90)) False False
     = [(12, 22, 20, 30, ''a''), (30, 40, 50, 45, ''b'')]"
proof -
  have base: "CroppedTable_text_positions (sample_rotated a) True False
                = [(2, 2, 10, 10, ''a''), (20, 20, 40, 25, ''b'')]" for a
    by (simp add: CroppedTable_text_positions_def sample_rotated_def sample_page_def
        is_intersecting_def Rect_init_def)
  have page_space: "CroppedTable_text_positions (sample_rotated a) False False
                = [(12, 22, 20, 30, ''a''), (30, 40, 50, 45, ''b'')]" for a
    by (simp add: CroppedTable_text_positions_def sample_rotated_def sample_page_def
        is_intersecting_def Rect_init_def)
  have dims: "height (rect (sample_rotated a)) = 50" "width (rect (sample_rotated a)) = 100"
       "angle (sample_rotated a) = a" for a
    by (simp_all add: sample_rotated_def height_def width_def Rect_init_def)
  show ?thesis
    using rotated_text_positions_remapped [of "sample_rotated 90" False True]
      rotated_text_positions_remapped [of "sample_rotated 180" False True]
      rotated_text_positions_remapped [of "sample_rotated 270" False True]
      rotated_text_positions_remapped [of "sample_rotated 0" False True]
      rotated_text_positions_remapped [of "sample_rotated 90" False False]
    by (simp add: base page_space dims)
qed

subsection \<open>Offset removal\<close>

lemma text_positions_loop_shift_back:
  "map (shift_back r) (text_positions_loop r True outside ws) =
     text_positions_loop r False outside ws"
  by (induction r True outside ws rule: text_positions_loop.induct)
     (simp_all add: shift_back_def)

text \<open>
  C8. For every table, shifting each word of the base class's
  \<^verbatim>\<open>text_positions(remove_table_offset=True)\<close> back by the top-left corner
  (xmin, ymin) of the table's rectangle gives the words of
  \<^verbatim>\<open>text_positions(remove_table_offset=False)\<close>: the same words with the same text in
  the same order, inside the table or, with \<^verbatim>\<open>outside\<close>, in its complement.
\<close>

theorem offset_round_trip:
  "map (shift_back (rect self)) (CroppedTable_text_positions self True outside) =
     CroppedTable_text_positions self False outside
   \<and> map (shift_back (rect c)) (text_positions (Plain c) True outside) =
     text_positions (Plain c) False outside"
  by (simp add: CroppedTable_text_positions_def text_positions_def
      text_positions_loop_shift_back)

subsection \<open>Construction\<close>

text \<open>
  C9. Constructing a rotated table with an angle among 0, 90, 180 and 270 succeeds, with
  that angle stored and the fields of the base class as its constructor sets them; with any
  other angle the constructor raises \<^verbatim>\<open>ValueError\<close> and there is no object.
\<close>

theorem rotated_init_validates_angle:
  "(ang \<in> {0, 90, 180, 270} \<longrightarrow>
      (\<exists>t. RotatedCroppedTable_init pg b score ang lbl = Inr t \<and> angle t = ang
           \<and> CroppedTable.truncate t = CroppedTable_init pg b score lbl))
   \<and> (ang \<notin> {0, 90, 180, 270} \<longrightarrow>
      (\<exists>msg. RotatedCroppedTable_init pg b score ang lbl = Inl (ValueError msg)))"
  by (simp add: RotatedCroppedTable_init_def CroppedTable_init_def CroppedTable.truncate_def
      Let_def)

theorem rotated_init_validates_angle_witness:
  "(\<exists>t. RotatedCroppedTable_init sample_page (BBoxTuple (10, 20, 110, 70)) 0.95 270 1 = Inr t
        \<and> angle t = 270)
   \<and> (\<exists>msg. RotatedCroppedTable_init sample_page (BBoxTuple (10, 20, 110, 70)) 0.95 45 1
        = Inl (ValueError msg))"
  using rotated_init_validates_angle [of 270 sample_page "BBoxTuple (10, 20, 110, 70)" "0.95" 1]
    rotated_init_validates_angle [of 45 sample_page "BBoxTuple (10, 20, 110, 70)" "0.95" 1]
  by auto

subsection \<open>Predicted word height\<close>

lemma word_heights_loop_filter:
  "word_heights_loop t ws acc =
     acc @ filter (\<lambda>h. h > t) (map (\<lambda>(x0, y0, x1, y1, s). y1 - y0) ws)"
  by (induction t ws acc rule: word_heights_loop.induct) simp_all

lemma word_heights_qualifying:
  "word_heights_loop t (text_positions self True False) [] = qualifying_heights self t"
  by (simp add: word_heights_loop_filter qualifying_heights_def)

lemma word_height_of_set [simp]:
  "word_height_of (set_word_height self v) = v"
  by (cases self) (simp_all add: word_height_of_def set_word_height_def)

lemma greater_zero_not_equal_zero:
  "greater_zero wh \<Longrightarrow> not_equal_zero wh"
  by (cases wh) simp_all



lemma predicted_word_height_fresh:
  assumes "word_height_of self = None"
  shows "predicted_word_height self t =
     (if qualifying_heights self t = [] then (Inr NaN, set_word_height self (Some NaN))
      else if greater_zero (times_float 0.95 (np_median (qualifying_heights self t)))
      then (Inr (times_float 0.95 (np_median (qualifying_heights self t))),
            set_word_height self (Some (times_float 0.95 (np_median (qualifying_heights self t)))))
      else (Inl AssertionError,
            set_word_height self (Some (times_float 0.95 (np_median (qualifying_heights self t))))))"
  using assms by (simp add: predicted_word_height_def word_heights_qualifying Let_def)

lemma predicted_word_height_cache_hit:
  assumes "word_height_of self = Some wh"
  shows "predicted_word_height self t =
     (if not_equal_zero wh then (Inr wh, self) else (Inl AssertionError, self))"
  using assms by (simp add: predicted_word_height_def)

lemma heights_table_qualifying:
  "qualifying_heights (Plain heights_table) default_smallest_supported_text_height
     = [1, 1, 100, 2]"
  by (simp add: qualifying_heights_def text_positions_def CroppedTable_text_positions_def
      heights_table_def heights_page_def CroppedTable_init_def Rect_init_def is_intersecting_def
      default_smallest_supported_text_height_def)

lemma np_median_example: "np_median [1, 1, 100, 2] = Num 1.5"
  by (simp add: np_median_def Let_def)




text \<open>
  C10. Once a call of \<^verbatim>\<open>predicted_word_height\<close> has returned a value, every later
  call on the object returns that value and leaves the object as it is, whatever
  threshold the later call passes.
\<close>

theorem predicted_word_height_cached:
  assumes "predicted_word_height self t1 = (Inr v, self')"
  shows "predicted_word_height self' t2 = (Inr v, self')"
proof (cases "word_height_of self")
  case (Some wh)
  with assms have "not_equal_zero wh" "v = wh" "self' = self"
    by (auto simp: predicted_word_height_cache_hit split: if_splits)
  then show ?thesis
    using Some by (simp add: predicted_word_height_cache_hit)
next
  case None
  from assms have cached: "self' = set_word_height self (Some v)" and nz: "not_equal_zero v"
    by (auto simp: predicted_word_height_fresh [OF None] greater_zero_not_equal_zero
        split: if_splits)
  have "word_height_of self' = Some v"
    by (simp add: cached)
  then show ?thesis
    using nz by (simp add: predicted_word_height_cache_hit)
qed

theorem predicted_word_height_cached_witness:
  "predicted_word_height (Plain heights_table) 0.1
     = (Inr (Num 1.425), Plain (heights_table\<lparr>cached_word_height := Some (Num 1.425)\<rparr>))
   \<and> predicted_word_height (Plain (heights_table\<lparr>cached_word_height := Some (Num 1.425)\<rparr>)) 50
     = (Inr (Num 1.425), Plain (heights_table\<lparr>cached_word_height := Some (Num 1.425)\<rparr>))
   \<and> fst (predicted_word_height (Plain heights_table) 50) = Inr (Num 95)"
proof -
  have h: "word_height_of (Plain heights_table) = None"
    by (simp add: word_height_of_def heights_table_def CroppedTable_init_def)
  have q: "qualifying_heights (Plain heights_table) 0.1 = [1, 1, 100, 2]"
    using heights_table_qualifying by (simp add: default_smallest_supported_text_height_def)
  have first: "predicted_word_height (Plain heights_table) 0.1
     = (Inr (Num 1.425), Plain (heights_table\<lparr>cached_word_height := Some (Num 1.425)\<rparr>))"
    by (simp add: predicted_word_height_fresh [OF h] q np_median_example set_word_height_def)
  have q50: "qualifying_heights (Plain heights_table) 50 = [100]"
    by (simp add: qualifying_heights_def text_positions_def CroppedTable_text_positions_def
      heights_table_def heights_page_def CroppedTable_init_def Rect_init_def is_intersecting_def)
  have fresh50: "fst (predicted_word_height (Plain heights_table) 50) = Inr (Num 95)"
    by (simp add: predicted_word_height_fresh [OF h] q50 np_median_def Let_def)
  show ?thesis
    using predicted_word_height_cached [OF first, of 50] first fresh50 by simp
qed

subsection \<open>Captions\<close>

text \<open>
  C6. The documentation of \<^verbatim>\<open>captions\<close> promises that the result is cached only for
  a call with all default arguments, so that a call passing a non-default argument is
  computed anew by the caption finder. The method does otherwise: it returns the cached
  pair whenever the cache is non-empty and either \<^verbatim>\<open>margin\<close> is \<^verbatim>\<open>None\<close> or
  \<^verbatim>\<open>line_spacing\<close> is 2.5. With captions cached, a call with margin 30 and the default
  line spacing, and a call with the default margin and line spacing 4, both return the
  cached pair and leave the caption finder uncalled; only a call where both arguments
  differ from their defaults asks the finder again.
\<close>

theorem captions_returns_cache_on_non_default_call:
  "captions fixed_finder (Plain captioned_table) (Some 30) default_line_spacing ()
     = ([''Table 1'', ''''], Plain captioned_table)
   \<and> captions fixed_finder (Plain captioned_table) None 4 ()
     = ([''Table 1'', ''''], Plain captioned_table)
   \<and> captions fixed_finder (Plain captioned_table) (Some 30) 4 ()
     = ([''found again'', ''''],
        Plain (captioned_table\<lparr>cached_captions := Some [''found again'', '''']\<rparr>))"
  by (simp add: captions_def truthy_def captions_of_def set_captions_def captioned_table_def
      fixed_finder_def default_line_spacing_def Let_def)

subsection \<open>Detector orchestration\<close>

lemma extract_loop_detected:
  assumes "length (scores results) = length (boxes results)"
    and "length (labels results) = length (boxes results)"
    and "\<forall>i \<in> set idx. i < length (boxes results)"
  shows "extract_loop pg results idx acc =
           Inr (acc @ map (\<lambda>i. detected_region pg (boxes results ! i) (scores results ! i)
                                  (labels results ! i)) idx)"
  using assms(3)
proof (induction idx arbitrary: acc)
  case Nil
  show ?case by simp
next
  case (Cons i rest)
  then have i: "i < length (boxes results)" and rest: "\<forall>j \<in> set rest. j < length (boxes results)"
    by simp_all
  show ?case
  proof (cases "labels results ! i = 1")
    case True
    then have "extract_loop pg results (i # rest) acc =
        extract_loop pg results rest
          (acc @ [detected_region pg (boxes results ! i) (scores results ! i) (labels results ! i)])"
      using i assms(1,2)
      by (simp add: Let_def RotatedCroppedTable_init_def CroppedTable_init_def
          detected_region_def)
    then show ?thesis
      by (simp add: Cons.IH [OF rest])
  next
    case False
    then have "extract_loop pg results (i # rest) acc =
        extract_loop pg results rest
          (acc @ [detected_region pg (boxes results ! i) (scores results ! i) (labels results ! i)])"
      using i assms(1,2)
      by (simp add: Let_def CroppedTable_init_def detected_region_def)
    then show ?thesis
      by (simp add: Cons.IH [OF rest])
  qed
qed

text \<open>
  C7. When the three sequences of the detection output have the same length, the
  detector returns one region per detection, in the order of the detections: the region
  of detection i is a rotated table of angle 90 when its label is 1 and a plain table
  otherwise, with the detection's box, score and label.
\<close>

theorem extract_region_per_detection:
  assumes "length (scores results) = length (boxes results)"
    and "length (labels results) = length (boxes results)"
  shows "\<exists>tables. TableDetector_extract pg results = Inr tables
           \<and> length tables = length (boxes results)
           \<and> (\<forall>i < length (boxes results).
                 tables ! i = detected_region pg (boxes results ! i) (scores results ! i)
                                (labels results ! i))"
proof -
  have "TableDetector_extract pg results =
          Inr (map (\<lambda>i. detected_region pg (boxes results ! i) (scores results ! i)
                          (labels results ! i)) [0 ..< length (boxes results)])"
    unfolding TableDetector_extract_def
    using extract_loop_detected [OF assms, of "[0 ..< length (boxes results)]" pg "[]"]
    by simp
  then show ?thesis by simp
qed

theorem extract_region_per_detection_witness:
  "TableDetector_extract sample_page sample_results =
     Inr [Plain \<lparr>page = sample_page, rect = Rect_init (10, 10, 110, 60),
                 confidence_score = 0.95, label = 0,
                 cached_word_height = None, cached_captions = None\<rparr>,
          Rotated \<lparr>page = sample_page, rect = Rect_init (20, 30, 80, 200),
                   confidence_score = 0.97, label = 1,
                   cached_word_height = None, cached_captions = None, angle = 90\<rparr>,
          Plain \<lparr>page = sample_page, rect = Rect_init (0, 0, 5, 5),
                 confidence_score = 0.91, label = 7,
                 cached_word_height = None, cached_captions = None\<rparr>]"
proof -
  have h1: "length (scores sample_results) = length (boxes sample_results)"
    by (simp add: sample_results_def)
  have h2: "length (labels sample_results) = length (boxes sample_results)"
    by (simp add: sample_results_def)
  from extract_region_per_detection [OF h1 h2, of sample_page]
  obtain tables where ok: "TableDetector_extract sample_page sample_results = Inr tables"
    and len: "length tables = length (boxes sample_results)"
    and nth: "\<forall>i < length (boxes sample_results).
                 tables ! i = detected_region sample_page (boxes sample_results ! i)
                                (scores sample_results ! i) (labels sample_results ! i)"
    by blast
  have l3: "length tables = 3"
    using len by (simp add: sample_results_def)
  have t0: "tables ! 0 = detected_region sample_page (10, 10, 110, 60) 0.95 0"
    using nth by (simp add: sample_results_def)
  have t1: "tables ! 1 = detected_region sample_page (20, 30, 80, 200) 0.97 1"
    using nth by (simp add: sample_results_def)
  have t2: "tables ! 2 = detected_region sample_page (0, 0, 5, 5) 0.91 7"
    using nth by (simp add: sample_results_def)
  have "tables = [tables ! 0, tables ! 1, tables ! 2]"
    using l3 by (auto simp: list_eq_iff_nth_eq numeral_3_eq_3 numeral_2_eq_2 less_Suc_eq)
  then have "tables = [detected_region sample_page (10, 10, 110, 60) 0.95 0,
                       detected_region sample_page (20, 30, 80, 200) 0.97 1,
                       detected_region sample_page (0, 0, 5, 5) 0.91 7]"
    using t0 t1 t2 by simp
  then show ?thesis
    using ok by (simp add: detected_region_def)
qed

subsection \<open>Serialisation\<close>

lemma from_dict_without_angle:
  assumes "d ''angle'' = None"
  shows "CroppedTable_from_dict d pg =
     and_then (item_bbox d ''bbox'') (\<lambda>b.
     and_then (item_float d ''confidence_score'') (\<lambda>score.
     and_then (item_int d ''label'') (\<lambda>lbl.
     and_then (get_captions d) (\<lambda>c.
       Inr (Plain ((CroppedTable_init pg (BBoxTuple b) score lbl)
                     \<lparr>cached_captions := Some c\<rparr>))))))"
    and "RotatedCroppedTable_from_dict d pg = CroppedTable_from_dict d pg"
proof -
  show "CroppedTable_from_dict d pg =
     and_then (item_bbox d ''bbox'') (\<lambda>b.
     and_then (item_float d ''confidence_score'') (\<lambda>score.
     and_then (item_int d ''label'') (\<lambda>lbl.
     and_then (get_captions d) (\<lambda>c.
       Inr (Plain ((CroppedTable_init pg (BBoxTuple b) score lbl)
                     \<lparr>cached_captions := Some c\<rparr>))))))"
    by (subst CroppedTable_from_dict.simps) (simp add: assms)
  show "RotatedCroppedTable_from_dict d pg = CroppedTable_from_dict d pg"
    by (subst RotatedCroppedTable_from_dict.simps) (simp add: assms)
qed

lemma from_dict_with_angle:
  assumes "d ''angle'' \<noteq> None"
  shows "RotatedCroppedTable_from_dict d pg =
     and_then (item_bbox d ''bbox'') (\<lambda>b.
     and_then (item_float d ''confidence_score'') (\<lambda>score.
     and_then (item_float d ''angle'') (\<lambda>ang.
     and_then (item_int d ''label'') (\<lambda>lbl.
     and_then (RotatedCroppedTable_init pg (BBoxTuple b) score ang lbl) (\<lambda>t.
     and_then (get_captions d) (\<lambda>c.
       Inr (Rotated (t\<lparr>cached_captions := Some c\<rparr>))))))))"
    and "CroppedTable_from_dict d pg = RotatedCroppedTable_from_dict d pg"
proof -
  show "RotatedCroppedTable_from_dict d pg =
     and_then (item_bbox d ''bbox'') (\<lambda>b.
     and_then (item_float d ''confidence_score'') (\<lambda>score.
     and_then (item_float d ''angle'') (\<lambda>ang.
     and_then (item_int d ''label'') (\<lambda>lbl.
     and_then (RotatedCroppedTable_init pg (BBoxTuple b) score ang lbl) (\<lambda>t.
     and_then (get_captions d) (\<lambda>c.
       Inr (Rotated (t\<lparr>cached_captions := Some c\<rparr>))))))))"
    by (subst RotatedCroppedTable_from_dict.simps) (simp add: assms)
  show "CroppedTable_from_dict d pg = RotatedCroppedTable_from_dict d pg"
    by (subst CroppedTable_from_dict.simps) (simp add: assms)
qed

lemma and_then_Inr_iff:
  "and_then r f = Inr y \<longleftrightarrow> (\<exists>x. r = Inr x \<and> f x = Inr y)"
  by (cases r) (simp_all add: and_then_def)

lemma rect_round_trip: "Rect_init (bbox r) = r"
  by (simp add: Rect_init_def bbox_def)

lemma plain_round_trip:
  "CroppedTable_from_dict (to_dict (Plain c)) pg =
     Inr (Plain (c\<lparr>page := pg, cached_word_height := None, cached_captions := Some []\<rparr>))"
proof -
  have no_angle: "to_dict (Plain c) ''angle'' = None"
    by (simp add: to_dict_def CroppedTable_to_dict_def)
  show ?thesis
    by (simp add: from_dict_without_angle(1) [of "to_dict (Plain c)" pg, OF no_angle])
       (simp add: to_dict_def CroppedTable_to_dict_def item_bbox_def item_float_def
          item_int_def get_captions_def and_then_def CroppedTable_init_def rect_round_trip)
qed

lemma rotated_round_trip:
  assumes "angle r \<in> {0, 90, 180, 270}"
  shows "CroppedTable_from_dict (to_dict (Rotated r)) pg =
     Inr (Rotated (r\<lparr>page := pg, cached_word_height := None, cached_captions := Some []\<rparr>))"
proof -
  have with_angle: "to_dict (Rotated r) ''angle'' \<noteq> None"
    by (simp add: to_dict_def RotatedCroppedTable_to_dict_def)
  show ?thesis
    using assms
    by (simp add: from_dict_with_angle [of "to_dict (Rotated r)" pg, OF with_angle])
       (auto simp add: to_dict_def RotatedCroppedTable_to_dict_def CroppedTable_to_dict_def
          item_bbox_def item_float_def item_int_def get_captions_def and_then_def
          RotatedCroppedTable_init_def CroppedTable_init_def rect_round_trip Let_def)
qed

lemma from_dict_class:
  assumes "CroppedTable_from_dict d pg = Inr t"
  shows "(d ''angle'' = None \<longrightarrow> (\<exists>c. t = Plain c))
       \<and> (d ''angle'' \<noteq> None \<longrightarrow> (\<exists>r. t = Rotated r))"
proof (cases "d ''angle'' = None")
  case True
  from assms show ?thesis
    unfolding from_dict_without_angle(1) [of d pg, OF True] and_then_Inr_iff
    using True by auto
next
  case False
  from assms have "RotatedCroppedTable_from_dict d pg = Inr t"
    by (simp add: from_dict_with_angle(2) [of d pg, OF False])
  then show ?thesis
    unfolding from_dict_with_angle(1) [of d pg, OF False] and_then_Inr_iff
    using False by auto
qed

lemma from_dict_either_entry:
  "RotatedCroppedTable_from_dict d pg = CroppedTable_from_dict d pg"
proof (cases "d ''angle'' = None")
  case True
  then show ?thesis by (rule from_dict_without_angle(2))
next
  case False
  then show ?thesis by (simp add: from_dict_with_angle(2) [of d pg])
qed

text \<open>
  C3. Deserialising the record of a plain table, or of a rotated table whose angle is one
  the constructor accepts, with the table's own page gives back a table of the same class
  with the same page, rectangle, confidence score, label and, when rotated, angle; only
  the caches differ, which are reset. Whenever deserialising any record gives a table, it
  is a plain table if the record has no key \<^verbatim>\<open>angle\<close> and a rotated table if it has
  one, and both \<^verbatim>\<open>from_dict\<close> methods give the same result.
\<close>

theorem serialization_round_trip:
  "CroppedTable_from_dict (to_dict (Plain c)) (page c) =
     Inr (Plain (c\<lparr>cached_word_height := None, cached_captions := Some []\<rparr>))
   \<and> (angle r \<in> {0, 90, 180, 270} \<longrightarrow>
        CroppedTable_from_dict (to_dict (Rotated r)) (page r) =
          Inr (Rotated (r\<lparr>cached_word_height := None, cached_captions := Some []\<rparr>)))
   \<and> (CroppedTable_from_dict d pg = Inr t \<and> d ''angle'' = None \<longrightarrow> (\<exists>c'. t = Plain c'))
   \<and> (CroppedTable_from_dict d pg = Inr t \<and> d ''angle'' \<noteq> None \<longrightarrow> (\<exists>r'. t = Rotated r'))
   \<and> RotatedCroppedTable_from_dict d pg = CroppedTable_from_dict d pg"
proof -
  have p: "CroppedTable_from_dict (to_dict (Plain c)) (page c) =
     Inr (Plain (c\<lparr>cached_word_height := None, cached_captions := Some []\<rparr>))"
    by (simp add: plain_round_trip)
  have r: "angle r \<in> {0, 90, 180, 270} \<longrightarrow>
        CroppedTable_from_dict (to_dict (Rotated r)) (page r) =
          Inr (Rotated (r\<lparr>cached_word_height := None, cached_captions := Some []\<rparr>))"
    using rotated_round_trip [of r "page r"] by simp
  have k: "(CroppedTable_from_dict d pg = Inr t \<and> d ''angle'' = None \<longrightarrow> (\<exists>c'. t = Plain c'))
      \<and> (CroppedTable_from_dict d pg = Inr t \<and> d ''angle'' \<noteq> None \<longrightarrow> (\<exists>r'. t = Rotated r'))"
    using from_dict_class [of d pg t] by blast
  show ?thesis
    using p r k from_dict_either_entry [of d pg] by blast
qed

theorem serialization_round_trip_witness:
  "CroppedTable_from_dict (to_dict (Plain captioned_table)) sample_page =
     Inr (Plain (sample_table\<lparr>cached_captions := Some []\<rparr>))
   \<and> CroppedTable_from_dict (to_dict (Rotated (sample_rotated 90))) sample_page =
     Inr (Rotated ((sample_rotated 90)\<lparr>cached_captions := Some []\<rparr>))
   \<and> to_dict (Plain captioned_table) ''angle'' = None
   \<and> to_dict (Rotated (sample_rotated 90)) ''angle'' = Some (PyFloat 90)"
proof -
  have a: "angle (sample_rotated 90) = 90"
    by (simp add: sample_rotated_def)
  have pc: "page captioned_table = sample_page"
    by (simp add: captioned_table_def sample_table_def CroppedTable_init_def)
  have pr: "page (sample_rotated 90) = sample_page"
    by (simp add: sample_rotated_def)
  have c: "captioned_table\<lparr>cached_word_height := None, cached_captions := Some []\<rparr>
             = sample_table\<lparr>cached_captions := Some []\<rparr>"
    by (simp add: captioned_table_def sample_table_def CroppedTable_init_def)
  have r: "(sample_rotated 90)\<lparr>cached_word_height := None, cached_captions := Some []\<rparr>
             = (sample_rotated 90)\<lparr>cached_captions := Some []\<rparr>"
    by (simp add: sample_rotated_def)
  have k1: "to_dict (Plain captioned_table) ''angle'' = None"
    by (simp add: to_dict_def CroppedTable_to_dict_def)
  have k2: "to_dict (Rotated (sample_rotated 90)) ''angle'' = Some (PyFloat 90)"
    by (simp add: to_dict_def RotatedCroppedTable_to_dict_def sample_rotated_def)
  show ?thesis
    using serialization_round_trip [of captioned_table "sample_rotated 90"
        "to_dict (Plain captioned_table)" sample_page "Plain captioned_table"] k1 k2
    by (simp add: a pc pr c r)
qed

end
